theory Spec2Isabelle
  imports Complex_Main "HOL-Library.Multiset" "HOL-Library.Log_Nat"
begin

section \<open>JavaScript numbers\<close>

text \<open>
  The handlers of \<^verbatim>\<open>user.controller\<close> read the amount of a request with
  \<^verbatim>\<open>parseFloat\<close>, and they read the balance that the store returns as text with
  \<^verbatim>\<open>parseFloat\<close> again. The result is a JavaScript number, a binary double:
  \<open>NaN\<close>, an infinity, or a finite value, given here by the rational it denotes (the
  sign of zero is left out).
\<close>

datatype number = NaN | PosInfinity | NegInfinity | Number rat

text \<open>JavaScript's \<^verbatim>\<open><=\<close> and \<^verbatim>\<open><\<close>: every comparison with \<open>NaN\<close> is false.\<close>

fun js_le :: "number \<Rightarrow> number \<Rightarrow> bool" where
  "js_le NaN _ = False"
| "js_le _ NaN = False"
| "js_le NegInfinity _ = True"
| "js_le _ PosInfinity = True"
| "js_le PosInfinity _ = False"
| "js_le _ NegInfinity = False"
| "js_le (Number a) (Number b) = (a \<le> b)"

fun js_lt :: "number \<Rightarrow> number \<Rightarrow> bool" where
  "js_lt NaN _ = False"
| "js_lt _ NaN = False"
| "js_lt PosInfinity _ = False"
| "js_lt _ NegInfinity = False"
| "js_lt NegInfinity _ = True"
| "js_lt _ PosInfinity = True"
| "js_lt (Number a) (Number b) = (a < b)"

text \<open>
  Reading a decimal as a double rounds it to 53 significant bits, to the nearest value
  and to the even one of two nearest. \<open>binary_exponent x\<close> is the \<open>e\<close> with
  \<open>2^e \<le> |x| < 2^(e+1)\<close>; below \<open>2^-1022\<close> the unit stays that of the subnormal
  numbers, and a result of \<open>2^1024\<close> or more is an infinity.
\<close>

definition binary_exponent :: "rat \<Rightarrow> int" where
  "binary_exponent x =
     (if 1 \<le> \<bar>x\<bar> then bitlen \<lfloor>\<bar>x\<bar>\<rfloor> - 1 else - bitlen (\<lceil>1 / \<bar>x\<bar>\<rceil> - 1))"

definition round_half_even :: "rat \<Rightarrow> int" where
  "round_half_even n =
     (let f = \<lfloor>n\<rfloor>; r = n - of_int f
      in if r < 1 / 2 then f else if 1 / 2 < r then f + 1 else if even f then f else f + 1)"

definition to_double :: "rat \<Rightarrow> number" where
  "to_double x =
     (if x = 0 then Number 0
      else
        let e = max (binary_exponent x) (- 1022);
            q = 2 powi (e - 52);
            m = round_half_even (\<bar>x\<bar> / q)
        in if 1023 < e \<or> (e = 1023 \<and> m = 2 ^ 53)
           then (if 0 < x then PosInfinity else NegInfinity)
           else Number (sgn x * (of_int m * q)))"

text \<open>
  The amount field of a request body, as \<^verbatim>\<open>parseFloat\<close> sees it: the decimal
  numeral at its head, or none (the field is missing or starts with no numeral).
\<close>

datatype amount_field = Malformed | Decimal rat

fun parseFloat :: "amount_field \<Rightarrow> number" where
  "parseFloat Malformed = NaN"
| "parseFloat (Decimal x) = to_double x"

text \<open>
  The database driver sends a number to the store as the text that \<^verbatim>\<open>toString\<close>
  gives: for a finite value the decimal with the fewest significant digits that reads
  back as the same double and, of two such, the nearer one. Seventeen digits always
  suffice. \<open>decimal_candidates x k\<close> are the two decimals of \<open>k\<close> significant digits
  next to \<open>x\<close>, the nearer first.
\<close>

definition decimal_exponent :: "rat \<Rightarrow> int" where
  "decimal_exponent x =
     (if 1 \<le> \<bar>x\<bar> then int (floorlog 10 (nat \<lfloor>\<bar>x\<bar>\<rfloor>)) - 1
      else - int (floorlog 10 (nat (\<lceil>1 / \<bar>x\<bar>\<rceil> - 1))))"

definition decimal_candidates :: "rat \<Rightarrow> nat \<Rightarrow> rat list" where
  "decimal_candidates x k =
     (let u = 10 powi (decimal_exponent x - int k + 1);
          s = \<lfloor>x / u\<rfloor>;
          lo = of_int s * u;
          hi = lo + u
      in if x - lo < hi - x then [lo, hi]
         else if hi - x < x - lo then [hi, lo]
         else if even s then [lo, hi] else [hi, lo])"

fun shortest_among :: "nat list \<Rightarrow> rat \<Rightarrow> rat" where
  "shortest_among [] x = x"
| "shortest_among (k # ks) x =
     (case find (\<lambda>c. to_double c = Number x) (decimal_candidates x k) of
        Some c \<Rightarrow> c
      | None \<Rightarrow> shortest_among ks x)"

definition shortest_decimal :: "rat \<Rightarrow> rat" where
  "shortest_decimal x =
     shortest_among [1, 2, 3, 4, 5, 6, 7, 8, 9, 10, 11, 12, 13, 14, 15, 16, 17] x"

definition number_text :: "rat \<Rightarrow> rat" where
  "number_text x =
     (if x = 0 then 0 else if 0 < x then shortest_decimal x else - shortest_decimal (- x))"

section \<open>Amounts in the store\<close>

text \<open>
  Modelled from the spec: the table declarations are not part of the sources. The data
  model gives \<open>amount\<close> as a fixed-point decimal in both \<open>account_balances\<close> and
  \<open>transactions\<close>; the scale is taken as two places, as in the \<^verbatim>\<open>0.00\<close> that
  \<open>registerUser\<close> inserts and in the amounts of the specified scenarios. How many
  digits a column holds before the point is not given anywhere, so it is a parameter
  of the store, one for each table. The store's decimal type has the value \<open>NaN\<close>,
  which a fixed-point column holds as well; it adds and subtracts exactly, \<open>NaN\<close>
  absorbing. On assignment to a column the value is rounded to the scale, a half away
  from zero, and the statement raises (\<open>None\<close>) when the rounded value has more
  digits than the column holds. A fixed-point column holds no infinity: a statement
  that binds one raises.
\<close>

datatype numeric = NumericNaN | Numeric rat

fun numeric_add :: "numeric \<Rightarrow> numeric \<Rightarrow> numeric" where
  "numeric_add (Numeric a) (Numeric b) = Numeric (a + b)"
| "numeric_add _ _ = NumericNaN"

fun numeric_sub :: "numeric \<Rightarrow> numeric \<Rightarrow> numeric" where
  "numeric_sub (Numeric a) (Numeric b) = Numeric (a - b)"
| "numeric_sub _ _ = NumericNaN"

definition round_scale :: "rat \<Rightarrow> rat" where
  "round_scale x = sgn x * (of_int \<lfloor>\<bar>x\<bar> * 100 + 1 / 2\<rfloor> / 100)"

fun store_amount :: "nat \<Rightarrow> numeric \<Rightarrow> numeric option" where
  "store_amount digits NumericNaN = Some NumericNaN"
| "store_amount digits (Numeric a) =
     (if \<bar>round_scale a\<bar> < 10 ^ digits then Some (Numeric (round_scale a)) else None)"

text \<open>A number bound to a statement, as the store reads the driver's text; \<open>None\<close> raises.\<close>

fun numeric_param :: "number \<Rightarrow> numeric option" where
  "numeric_param NaN = Some NumericNaN"
| "numeric_param PosInfinity = None"
| "numeric_param NegInfinity = None"
| "numeric_param (Number x) = Some (Numeric (number_text x))"

text \<open>\<^verbatim>\<open>parseFloat(rows[0].amount)\<close>: the store returns the amount as its decimal text.\<close>

fun parseFloat_numeric :: "numeric \<Rightarrow> number" where
  "parseFloat_numeric NumericNaN = NaN"
| "parseFloat_numeric (Numeric a) = to_double a"

section \<open>Identifiers of a request\<close>

text \<open>
  The body of a request is parsed JSON or a URL-encoded form, so an identifier field
  arrives as a number or as text. \<open>IdNumber n\<close> is the number \<open>n\<close>, with \<open>IdNumber 0\<close>
  standing for every falsy value (a missing field, \<^verbatim>\<open>null\<close>, \<^verbatim>\<open>0\<close>, the empty
  string), which the handlers reject alike with \<^verbatim>\<open>!user_id\<close>. \<open>IdNumeral n\<close> is
  the text that holds the decimal numeral of \<open>n\<close>: it is truthy, it is not a number for
  \<^verbatim>\<open>typeof\<close>, it is never \<^verbatim>\<open>===\<close> to a number, and the store reads it as the
  key \<open>n\<close>. Text that is no numeral is outside the model.
\<close>

datatype id_field = IdNumber nat | IdNumeral nat

fun falsy_id :: "id_field \<Rightarrow> bool" where
  "falsy_id (IdNumber n) = (n = 0)"
| "falsy_id (IdNumeral n) = False"

fun text_id :: "id_field \<Rightarrow> bool" where
  "text_id (IdNumber n) = False"
| "text_id (IdNumeral n) = True"

fun id_key :: "id_field \<Rightarrow> nat" where
  "id_key (IdNumber n) = n"
| "id_key (IdNumeral n) = n"

text \<open>\<^verbatim>\<open>sender_id === recipientId\<close>, the right side being the number of a key column.\<close>

fun strict_equal :: "id_field \<Rightarrow> nat \<Rightarrow> bool" where
  "strict_equal (IdNumber n) k = (n = k)"
| "strict_equal (IdNumeral n) k = False"

section \<open>Tables\<close>

text \<open>
  Keys are the numbers of the serial key columns. Text fields are strings, the empty
  string standing for a missing one. Timestamps are natural numbers. The credential
  columns of \<open>users\<close> (password hash, date of birth) play no part in the ledger and are
  left out.
\<close>

record user_row =
  u_user_id :: nat
  u_first_name :: string
  u_last_name :: string
  u_email_id :: string
  u_mobile_number :: string

record balance_row =
  b_user_id :: nat
  b_amount :: numeric
  b_last_updated_at :: nat

datatype tx_type = CREDIT | DEBIT

record tx_row =
  t_transaction_id :: nat
  t_user_id :: nat
  t_type :: tx_type
  t_amount :: numeric
  t_description :: string
  t_status :: string
  t_counterparty_id :: "nat option"
  t_created_at :: nat
  t_last_updated_at :: nat

text \<open>
  A table is the list of its rows. Modelled from the spec: \<open>users_seq\<close> and
  \<open>transactions_seq\<close> are the counters behind the generated keys \<open>user_id\<close> and
  \<open>transaction_id\<close> (monotonic, unique); \<open>balance_digits\<close> and \<open>ledger_digits\<close>
  are the digits before the point of the two \<open>amount\<close> columns.
\<close>

record db =
  users :: "user_row list"
  account_balances :: "balance_row list"
  transactions :: "tx_row list"
  users_seq :: nat
  transactions_seq :: nat
  balance_digits :: nat
  ledger_digits :: nat

text \<open>
  The empty store whose \<open>amount\<close> columns hold the given numbers of digits before the
  point, the first in \<open>account_balances\<close>, the second in \<open>transactions\<close>.
\<close>

definition empty_db :: "nat \<Rightarrow> nat \<Rightarrow> db" where
  "empty_db balance_width ledger_width =
     \<lparr>users = [], account_balances = [], transactions = [],
      users_seq = 0, transactions_seq = 0,
      balance_digits = balance_width, ledger_digits = ledger_width\<rparr>"

section \<open>Responses\<close>

text \<open>
  A response is the HTTP status and the JSON body. The \<^verbatim>\<open>message\<close> field of a
  success body is left out; the transaction list carries the selected rows (the handler
  renames the selected columns one to one).
\<close>

datatype body =
    Error string
  | NewBalance numeric
  | Registered nat string string
  | Transactions "tx_row list"

datatype response = Response nat body

fun status_of :: "response \<Rightarrow> nat" where
  "status_of (Response st b) = st"

section \<open>Queries\<close>

text \<open>\<^verbatim>\<open>SELECT amount FROM account_balances WHERE user_id = $1\<close>\<close>

definition select_balance :: "nat \<Rightarrow> db \<Rightarrow> numeric list" where
  "select_balance user_id d =
     map b_amount (filter (\<lambda>r. b_user_id r = user_id) (account_balances d))"

text \<open>
  \<^verbatim>\<open>UPDATE account_balances SET amount = f(amount), last_updated_at = CURRENT_TIMESTAMP
  WHERE user_id = $2\<close>; each new amount is assigned to the column, and the statement
  raises when one does not fit.
\<close>

fun update_rows ::
  "nat \<Rightarrow> (numeric \<Rightarrow> numeric) \<Rightarrow> nat \<Rightarrow> nat \<Rightarrow> balance_row list \<Rightarrow> balance_row list option"
where
  "update_rows digits f now user_id [] = Some []"
| "update_rows digits f now user_id (r # rs) =
     (if b_user_id r = user_id
      then (case store_amount digits (f (b_amount r)) of
              None \<Rightarrow> None
            | Some x \<Rightarrow>
                map_option ((#) (r\<lparr>b_amount := x, b_last_updated_at := now\<rparr>))
                  (update_rows digits f now user_id rs))
      else map_option ((#) r) (update_rows digits f now user_id rs))"

definition update_balance :: "(numeric \<Rightarrow> numeric) \<Rightarrow> nat \<Rightarrow> nat \<Rightarrow> db \<Rightarrow> db option" where
  "update_balance f now user_id d =
     map_option (\<lambda>rows. d\<lparr>account_balances := rows\<rparr>)
       (update_rows (balance_digits d) f now user_id (account_balances d))"

text \<open>
  \<^verbatim>\<open>INSERT INTO transactions (user_id, type, amount, description, counterparty_id,
  status, last_updated_at) VALUES (..., CURRENT_TIMESTAMP)\<close>; the amount is assigned to
  the column, and the statement raises when it does not fit.
  Modelled from the spec: \<open>transaction_id\<close> is the next value of the key's counter and
  \<open>created_at\<close> defaults to the current timestamp.
\<close>

definition insert_transaction ::
  "nat \<Rightarrow> tx_type \<Rightarrow> numeric \<Rightarrow> string \<Rightarrow> nat option \<Rightarrow> string \<Rightarrow> nat \<Rightarrow> db \<Rightarrow> db option"
where
  "insert_transaction user_id ty amt descr counterparty st now d =
     (case store_amount (ledger_digits d) amt of
        None \<Rightarrow> None
      | Some stored \<Rightarrow>
          Some (d\<lparr>transactions := transactions d @
                  [\<lparr>t_transaction_id = Suc (transactions_seq d), t_user_id = user_id,
                    t_type = ty, t_amount = stored, t_description = descr, t_status = st,
                    t_counterparty_id = counterparty, t_created_at = now,
                    t_last_updated_at = now\<rparr>],
                transactions_seq := Suc (transactions_seq d)\<rparr>))"

text \<open>
  \<^verbatim>\<open>findRecipient\<close>: an identifier with an \<open>@\<close> is looked up in \<open>email_id\<close>, any
  other in \<open>mobile_number\<close>; the first row found, or \<^verbatim>\<open>null\<close>.
\<close>

definition findRecipient :: "string \<Rightarrow> db \<Rightarrow> user_row option" where
  "findRecipient identifier d =
     (let isEmail = (CHR ''@'' \<in> set identifier)
      in find (\<lambda>u. (if isEmail then u_email_id u else u_mobile_number u) = identifier)
           (users d))"

section \<open>Handlers\<close>

text \<open>
  Each handler takes the fields it reads from the request body, the current timestamp
  and the store, and returns the response with the store as committed. BEGIN works on
  a copy; COMMIT returns the copy, ROLLBACK the store as it was. An exception inside
  \<^verbatim>\<open>try\<close>, as of a statement that raises, is the branch \<open>failed\<close>: ROLLBACK
  and status 500. A query through the pool
  instead of the transaction's client reads the committed store; in every handler that
  is the store the transaction started from, or the one it has just committed.

  \<open>registerUser\<close> is given without the password, which it hashes and stores and which
  no other handler of the ledger reads. Modelled from the spec: \<open>user_id\<close> is the
  unique key of \<open>account_balances\<close>, so the insert of a second row for a user raises.
\<close>

definition registerUser ::
  "string \<Rightarrow> string \<Rightarrow> string \<Rightarrow> string \<Rightarrow> nat \<Rightarrow> db \<Rightarrow> response \<times> db" where
  "registerUser first_name last_name email_id mobile_number now d =
     (if list_ex (\<lambda>u. u_email_id u = email_id \<or> u_mobile_number u = mobile_number) (users d)
      then (Response 409 (Error ''User with this email or mobile number already exists.''), d)
      else
        let newUserId = Suc (users_seq d);
            tx1 = d\<lparr>users := users d @
                      [\<lparr>u_user_id = newUserId, u_first_name = first_name,
                        u_last_name = last_name, u_email_id = email_id,
                        u_mobile_number = mobile_number\<rparr>],
                    users_seq := newUserId\<rparr>
        in if list_ex (\<lambda>r. b_user_id r = newUserId) (account_balances tx1)
           then (Response 500 (Error ''Internal server error. Registration failed during final database commit/cleanup.''), d)
           else (Response 201 (Registered newUserId first_name email_id),
                 tx1\<lparr>account_balances := account_balances tx1 @
                       [\<lparr>b_user_id = newUserId, b_amount = Numeric 0,
                         b_last_updated_at = now\<rparr>]\<rparr>))"

definition addFunds :: "id_field \<Rightarrow> amount_field \<Rightarrow> nat \<Rightarrow> db \<Rightarrow> response \<times> db" where
  "addFunds user_id amount now d =
     (let depositAmount = parseFloat amount;
          failed = (Response 500 (Error ''Internal server error: Deposit failed.''), d)
      in
      if falsy_id user_id \<or> js_le depositAmount (Number 0)
      then (Response 400 (Error ''Valid user ID and positive amount required.''), d)
      else
        case numeric_param depositAmount of
          None \<Rightarrow> failed
        | Some dep \<Rightarrow>
            case update_balance (\<lambda>a. numeric_add a dep) now (id_key user_id) d of
              None \<Rightarrow> failed
            | Some tx1 \<Rightarrow>
                let balanceResult = select_balance (id_key user_id) tx1
                in case insert_transaction (id_key user_id) CREDIT dep
                          ''Wallet Deposit (External)'' None ''COMPLETED'' now tx1 of
                     None \<Rightarrow> failed
                   | Some tx2 \<Rightarrow>
                       case balanceResult of
                         [] \<Rightarrow> (Response 500 (Error ''Internal server error: Deposit failed.''), tx2)
                       | new_balance # _ \<Rightarrow> (Response 200 (NewBalance new_balance), tx2))"

definition payBill ::
  "id_field \<Rightarrow> string \<Rightarrow> amount_field \<Rightarrow> string \<Rightarrow> nat \<Rightarrow> db \<Rightarrow> response \<times> db" where
  "payBill user_id merchant_id amount description now d =
     (let paymentAmount = parseFloat amount;
          failed = (Response 500 (Error ''Internal server error: Payment processing failed.''), d)
      in
      if falsy_id user_id \<or> merchant_id = [] \<or> js_le paymentAmount (Number 0)
      then (Response 400 (Error ''Valid user ID, merchant ID, and positive amount required.''), d)
      else
        case select_balance (id_key user_id) d of
          [] \<Rightarrow> (Response 402 (Error ''Insufficient funds for this payment.''), d)
        | balance # _ \<Rightarrow>
            if js_lt (parseFloat_numeric balance) paymentAmount
            then (Response 402 (Error ''Insufficient funds for this payment.''), d)
            else
              case numeric_param paymentAmount of
                None \<Rightarrow> failed
              | Some pay \<Rightarrow>
                  case insert_transaction (id_key user_id) DEBIT pay description None
                         ''COMPLETED'' now d of
                    None \<Rightarrow> failed
                  | Some tx1 \<Rightarrow>
                      case select_balance (id_key user_id) tx1 of
                        [] \<Rightarrow> (Response 500 (Error ''Internal server error: Payment processing failed.''), tx1)
                      | new_balance # _ \<Rightarrow> (Response 200 (NewBalance new_balance), tx1))"

definition sendMoney ::
  "id_field \<Rightarrow> string \<Rightarrow> amount_field \<Rightarrow> nat \<Rightarrow> db \<Rightarrow> response \<times> db" where
  "sendMoney sender_id recipient_identifier amount now d =
     (let transferAmount = parseFloat amount;
          failed = (Response 500 (Error ''Internal server error: P2P transfer failed.''), d)
      in
      if falsy_id sender_id \<or> recipient_identifier = [] \<or> js_le transferAmount (Number 0)
      then (Response 400 (Error ''Sender ID, recipient, and positive amount required.''), d)
      else
        case findRecipient recipient_identifier d of
          None \<Rightarrow> (Response 404 (Error ''Recipient not found.''), d)
        | Some recipient \<Rightarrow>
            let recipientId = u_user_id recipient;
                recipientName = u_first_name recipient
            in if strict_equal sender_id recipientId
               then (Response 400 (Error ''Cannot send money to yourself.''), d)
               else
                 case select_balance (id_key sender_id) d of
                   [] \<Rightarrow> (Response 402 (Error ''Insufficient funds.''), d)
                 | balance # _ \<Rightarrow>
                     if js_lt (parseFloat_numeric balance) transferAmount
                     then (Response 402 (Error ''Insufficient funds.''), d)
                     else
                       case numeric_param transferAmount of
                         None \<Rightarrow> failed
                       | Some tr \<Rightarrow>
                   case update_balance (\<lambda>a. numeric_sub a tr) now (id_key sender_id) d of
                     None \<Rightarrow> failed
                   | Some tx1 \<Rightarrow>
                   case update_balance (\<lambda>a. numeric_add a tr) now recipientId tx1 of
                     None \<Rightarrow> failed
                   | Some tx2 \<Rightarrow>
                   case insert_transaction (id_key sender_id) DEBIT tr
                          (''Transfer to '' @ recipientName @ '' (P2P)'')
                          (Some recipientId) ''COMPLETED'' now tx2 of
                     None \<Rightarrow> failed
                   | Some tx3 \<Rightarrow>
                   case map u_first_name
                          (filter (\<lambda>u. u_user_id u = id_key sender_id) (users d)) of
                     [] \<Rightarrow> failed
                   | senderName # _ \<Rightarrow>
                   case insert_transaction recipientId CREDIT tr
                          (''Transfer from '' @ senderName @ '' (P2P)'')
                          (Some (id_key sender_id)) ''COMPLETED'' now tx3 of
                     None \<Rightarrow> failed
                   | Some tx4 \<Rightarrow>
                   case select_balance (id_key sender_id) tx4 of
                     [] \<Rightarrow> (Response 500 (Error ''Internal server error: P2P transfer failed.''), tx4)
                   | new_balance # _ \<Rightarrow> (Response 200 (NewBalance new_balance), tx4))"

text \<open>
  \<^verbatim>\<open>getUserTransactions\<close> refuses an identifier that is falsy or not a number, and
  otherwise runs
  \<^verbatim>\<open>SELECT ... FROM transactions WHERE user_id = $1 ORDER BY created_at DESC\<close>.
  The query fixes the order of the result only up to rows with equal \<open>created_at\<close>, so
  the handler is a relation between the request and the responses it may give:
  \<open>order_by_created_at_desc rows result\<close> holds when \<open>result\<close> holds the rows of
  \<open>rows\<close>, each as often, in non-increasing order of \<open>created_at\<close>.
\<close>

definition order_by_created_at_desc :: "tx_row list \<Rightarrow> tx_row list \<Rightarrow> bool" where
  "order_by_created_at_desc rows result =
     (mset result = mset rows \<and>
      sorted_wrt (\<lambda>a b. t_created_at b \<le> t_created_at a) result)"

definition getUserTransactions :: "id_field \<Rightarrow> db \<Rightarrow> response \<Rightarrow> bool" where
  "getUserTransactions user_id d res =
     (if falsy_id user_id \<or> text_id user_id
      then res = Response 400 (Error ''Valid user_id is required to fetch transactions.'')
      else (case res of
              Response st (Transactions result) \<Rightarrow>
                st = 200 \<and>
                order_by_created_at_desc
                  (filter (\<lambda>t. t_user_id t = id_key user_id) (transactions d)) result
            | _ \<Rightarrow> False))"

section \<open>The router\<close>

text \<open>The routes of \<^verbatim>\<open>user.routes\<close> that change the store, one constructor each.\<close>

datatype request =
    PostRegister string string string string
  | PostFundsAdd id_field amount_field
  | PostPayBill id_field string amount_field string
  | PostTransferP2P id_field string amount_field

fun route :: "request \<Rightarrow> nat \<Rightarrow> db \<Rightarrow> response \<times> db" where
  "route (PostRegister first_name last_name email_id mobile_number) now d =
     registerUser first_name last_name email_id mobile_number now d"
| "route (PostFundsAdd user_id amount) now d = addFunds user_id amount now d"
| "route (PostPayBill user_id merchant_id amount description) now d =
     payBill user_id merchant_id amount description now d"
| "route (PostTransferP2P sender_id recipient_identifier amount) now d =
     sendMoney sender_id recipient_identifier amount now d"

text \<open>The store after a sequence of requests, each with the time it is served at.\<close>

fun serve :: "(request \<times> nat) list \<Rightarrow> db \<Rightarrow> db" where
  "serve [] d = d"
| "serve ((rq, now) # rest) d = serve rest (snd (route rq now d))"

section \<open>Notions of the specification\<close>

text \<open>
  The net of a user's ledger: the sum of the amounts of the user's CREDIT records minus
  the sum of the amounts of the user's DEBIT records, in the store's decimal arithmetic.
\<close>

definition numeric_sum :: "numeric list \<Rightarrow> numeric" where
  "numeric_sum xs = foldr numeric_add xs (Numeric 0)"

definition ledger_net :: "nat \<Rightarrow> db \<Rightarrow> numeric" where
  "ledger_net user_id d =
     numeric_sub
       (numeric_sum (map t_amount
          (filter (\<lambda>t. t_user_id t = user_id \<and> t_type t = CREDIT) (transactions d))))
       (numeric_sum (map t_amount
          (filter (\<lambda>t. t_user_id t = user_id \<and> t_type t = DEBIT) (transactions d))))"

text \<open>Reconciliation: the amount of every balance row is the net of its user's ledger.\<close>

definition reconciled :: "db \<Rightarrow> bool" where
  "reconciled d =
     list_all (\<lambda>r. b_amount r = ledger_net (b_user_id r) d) (account_balances d)"

text \<open>An amount of at most two decimal places, the scale of the amount columns.\<close>

definition two_places :: "rat \<Rightarrow> bool" where
  "two_places x = (of_int \<lfloor>x * 100\<rfloor> = x * 100)"

section \<open>Scenarios\<close>

text \<open>
  The scenarios run on a store whose amount columns hold eight digits before the point,
  the last one on columns of fourteen.
\<close>

text \<open>One registered user who has deposited 100.\<close>

definition asha_wallet :: db where
  "asha_wallet =
     serve [(PostRegister ''Asha'' ''Rao'' ''asha@example.com'' ''9000000001'', 1),
            (PostFundsAdd (IdNumber 1) (Decimal 100), 2)] (empty_db 8 8)"

text \<open>The same user after a bill payment of 30.\<close>

definition asha_after_bill :: db where
  "asha_after_bill =
     serve [(PostPayBill (IdNumber 1) ''power-co'' (Decimal 30) ''Electricity'', 3)] asha_wallet"

text \<open>The same user after two further deposits served at the same instant.\<close>

definition same_instant_deposits :: db where
  "same_instant_deposits =
     serve [(PostFundsAdd (IdNumber 1) (Decimal 10), 5),
            (PostFundsAdd (IdNumber 1) (Decimal 20), 5)] asha_wallet"

text \<open>Two registered users with balances 200 and 10.\<close>

definition two_wallets :: db where
  "two_wallets =
     serve [(PostRegister ''Asha'' ''Rao'' ''asha@example.com'' ''9000000001'', 1),
            (PostRegister ''Bilal'' ''Khan'' ''bilal@example.com'' ''9000000002'', 2),
            (PostFundsAdd (IdNumber 1) (Decimal 200), 3),
            (PostFundsAdd (IdNumber 2) (Decimal 10), 4)] (empty_db 8 8)"

text \<open>Two registered users, the first with a balance of 0.10.\<close>

definition dime_wallet :: db where
  "dime_wallet =
     serve [(PostRegister ''Asha'' ''Rao'' ''asha@example.com'' ''9000000001'', 1),
            (PostRegister ''Bilal'' ''Khan'' ''bilal@example.com'' ''9000000002'', 2),
            (PostFundsAdd (IdNumber 1) (Decimal (1 / 10)), 3)] (empty_db 8 8)"

text \<open>Two registered users, the first after a deposit with a malformed amount.\<close>

definition malformed_deposit :: db where
  "malformed_deposit =
     serve [(PostRegister ''Asha'' ''Rao'' ''asha@example.com'' ''9000000001'', 1),
            (PostRegister ''Bilal'' ''Khan'' ''bilal@example.com'' ''9000000002'', 2),
            (PostFundsAdd (IdNumber 1) Malformed, 3)] (empty_db 8 8)"

text \<open>
  Two registered users on columns of fourteen digits, the first after deposits of
  70368744177664 and of 0.01.
\<close>

definition wide_wallet :: db where
  "wide_wallet =
     serve [(PostRegister ''Asha'' ''Rao'' ''asha@example.com'' ''9000000001'', 1),
            (PostRegister ''Bilal'' ''Khan'' ''bilal@example.com'' ''9000000002'', 2),
            (PostFundsAdd (IdNumber 1) (Decimal 70368744177664), 3),
            (PostFundsAdd (IdNumber 1) (Decimal (1 / 100)), 4)] (empty_db 14 14)"

section \<open>Facts about doubles and decimals\<close>

lemma binary_exponent_lower:
  assumes "x \<noteq> 0"
  shows "2 powi (binary_exponent x) \<le> \<bar>x\<bar>"
proof (cases "1 \<le> \<bar>x\<bar>")
  case True
  define n where "n = \<lfloor>\<bar>x\<bar>\<rfloor>"
  have npos: "0 < n" using True by (simp add: n_def)
  have b1: "1 \<le> bitlen n" using npos by (simp add: bitlen_alt_def)
  have "(2::int) ^ nat (bitlen n - 1) \<le> n" using bitlen_bounds [OF npos] by simp
  then have "(of_int ((2::int) ^ nat (bitlen n - 1)) :: rat) \<le> of_int n"
    by (simp only: of_int_le_iff)
  also have "\<dots> \<le> \<bar>x\<bar>" by (simp add: n_def)
  finally have "(2::rat) ^ nat (bitlen n - 1) \<le> \<bar>x\<bar>" by simp
  moreover have "binary_exponent x = bitlen n - 1"
    using True by (simp add: binary_exponent_def n_def)
  ultimately show ?thesis using b1 by (simp add: power_int_def)
next
  case False
  define y where "y = 1 / \<bar>x\<bar>"
  define m where "m = \<lceil>y\<rceil>"
  have xpos: "0 < \<bar>x\<bar>" using assms by simp
  have ygt: "1 < y" using False xpos by (simp add: y_def)
  then have m2: "2 \<le> m" unfolding m_def by linarith
  then have mpos: "0 < m - 1" by simp
  define k where "k = bitlen (m - 1)"
  have k1: "1 \<le> k" using mpos by (simp add: k_def bitlen_alt_def)
  have "m - 1 < 2 ^ nat k" using bitlen_bounds [OF mpos] by (simp add: k_def)
  then have "m \<le> 2 ^ nat k" by simp
  then have "(of_int m :: rat) \<le> of_int (2 ^ nat k)" by (simp only: of_int_le_iff)
  then have "(of_int m :: rat) \<le> 2 ^ nat k" by simp
  moreover have "y \<le> of_int m" by (simp add: m_def)
  ultimately have "y \<le> 2 ^ nat k" by linarith
  then have "1 / 2 ^ nat k \<le> \<bar>x\<bar>"
    using xpos by (simp add: y_def field_simps)
  moreover have "binary_exponent x = - k"
    using False by (simp add: binary_exponent_def k_def m_def y_def)
  ultimately show ?thesis using k1 by (simp add: power_int_def inverse_eq_divide power_one_over)
qed

lemma round_half_even_error: "\<bar>of_int (round_half_even n) - n\<bar> \<le> 1 / 2"
proof -
  have "of_int \<lfloor>n\<rfloor> \<le> n" "n < of_int \<lfloor>n\<rfloor> + 1" by linarith+
  then show ?thesis
    by (auto simp: round_half_even_def Let_def abs_le_iff)
qed

text \<open>
  A finite double differs from the decimal it was read from by at most half a unit in
  the last place.
\<close>

lemma to_double_error:
  assumes "to_double x = Number v"
  shows "\<bar>v - x\<bar> \<le> \<bar>x\<bar> / 2 ^ 53 + 2 powi (- 1075)"
proof (cases "x = 0")
  case True
  with assms show ?thesis by (simp add: to_double_def)
next
  case False
  define e where "e = max (binary_exponent x) (- 1022)"
  define q :: rat where "q = 2 powi (e - 52)"
  define m where "m = round_half_even (\<bar>x\<bar> / q)"
  have qpos: "0 < q" by (simp add: q_def)
  have v: "v = sgn x * (of_int m * q)"
    using assms False
    by (simp add: to_double_def Let_def e_def [symmetric] q_def [symmetric] m_def [symmetric]
          split: if_splits)
  have "\<bar>of_int m - \<bar>x\<bar> / q\<bar> \<le> 1 / 2"
    unfolding m_def by (rule round_half_even_error)
  then have "\<bar>of_int m - \<bar>x\<bar> / q\<bar> * q \<le> 1 / 2 * q"
    using qpos by (intro mult_right_mono) auto
  moreover have "\<bar>of_int m - \<bar>x\<bar> / q\<bar> * q = \<bar>of_int m * q - \<bar>x\<bar>\<bar>"
  proof -
    have "(of_int m - \<bar>x\<bar> / q) * q = of_int m * q - \<bar>x\<bar>"
      using qpos by (simp add: field_simps)
    then have "\<bar>of_int m * q - \<bar>x\<bar>\<bar> = \<bar>of_int m - \<bar>x\<bar> / q\<bar> * \<bar>q\<bar>"
      by (simp only: abs_mult [symmetric])
    with qpos show ?thesis by simp
  qed
  ultimately have err: "\<bar>of_int m * q - \<bar>x\<bar>\<bar> \<le> q / 2" by simp
  have "\<bar>v - x\<bar> = \<bar>of_int m * q - \<bar>x\<bar>\<bar>"
  proof (cases "0 < x")
    case True
    then show ?thesis by (simp add: v)
  next
    case neg: False
    with False have "x < 0" by simp
    then have "v - x = - (of_int m * q - \<bar>x\<bar>)" by (simp add: v)
    then show ?thesis by (simp only: abs_minus_cancel)
  qed
  with err have verr: "\<bar>v - x\<bar> \<le> q / 2" by simp
  have qb: "q / 2 \<le> \<bar>x\<bar> / 2 ^ 53 + 2 powi (- 1075)"
  proof (cases "- 1022 \<le> binary_exponent x")
    case True
    then have "e = binary_exponent x" by (simp add: e_def)
    then have "q = 2 powi (binary_exponent x) / 2 ^ 52"
      by (simp add: q_def power_int_diff)
    also have "\<dots> \<le> \<bar>x\<bar> / 2 ^ 52"
      using binary_exponent_lower [OF False] by (simp add: divide_right_mono)
    finally have "q / 2 \<le> \<bar>x\<bar> / 2 ^ 53" by simp
    moreover have "(0::rat) \<le> 2 powi (- 1075)" by simp
    ultimately show ?thesis by linarith
  next
    case False
    then have "e = - 1022" by (simp add: e_def)
    then have "q / 2 = 2 powi (- 1075)"
      by (simp add: q_def power_int_def inverse_eq_divide power_one_over)
    then show ?thesis by simp
  qed
  from verr qb show ?thesis by linarith
qed

text \<open>Below \<open>2^1023\<close> the double is finite.\<close>

lemma to_double_finite:
  assumes "\<bar>x\<bar> < 2 ^ 1023"
  shows "\<exists>v. to_double x = Number v"
proof (cases "x = 0")
  case True
  then show ?thesis by (simp add: to_double_def)
next
  case False
  have "binary_exponent x < 1023"
  proof (rule ccontr)
    assume "\<not> binary_exponent x < 1023"
    then have ge: "1023 \<le> binary_exponent x" by simp
    then have "(2::rat) ^ 1023 \<le> 2 ^ nat (binary_exponent x)"
      by (intro power_increasing) auto
    also have "\<dots> = 2 powi (binary_exponent x)"
      using ge by (simp add: power_int_def)
    also have "\<dots> \<le> \<bar>x\<bar>" by (rule binary_exponent_lower [OF False])
    finally show False using assms by simp
  qed
  define e where "e = max (binary_exponent x) (- 1022)"
  from \<open>binary_exponent x < 1023\<close> have "e < 1023" by (simp add: e_def)
  then have "\<not> (1023 < e \<or> (e = 1023 \<and> round_half_even (\<bar>x\<bar> / 2 powi (e - 52)) = 2 ^ 53))"
    by simp
  with False show ?thesis
    unfolding to_double_def Let_def e_def [symmetric] by (simp only: if_False) blast
qed

lemma tiny_unit: "(2::rat) powi (- 1075) \<le> 1 / 2 ^ 53"
proof -
  have "(2::rat) ^ 53 \<le> 2 ^ 1075" by (intro power_increasing) auto
  then have "1 / (2::rat) ^ 1075 \<le> 1 / 2 ^ 53"
    by (intro divide_left_mono) auto
  then show ?thesis by (simp add: power_int_def inverse_eq_divide power_one_over)
qed

text \<open>
  Below ten to the thirteenth a decimal and its double differ by less than an eighth
  of a cent.
\<close>

lemma to_double_near:
  assumes "\<bar>x\<bar> < 10 ^ 13"
  obtains v where "to_double x = Number v" and "\<bar>v - x\<bar> < 1 / 800"
proof -
  have "\<bar>x\<bar> < 2 ^ 1023"
  proof -
    have "(10::rat) ^ 13 \<le> 2 ^ 52" by simp
    also have "(2::rat) ^ 52 \<le> 2 ^ 1023" by (intro power_increasing) auto
    finally show ?thesis using assms by linarith
  qed
  then obtain v where v: "to_double x = Number v"
    using to_double_finite by blast
  have "\<bar>v - x\<bar> \<le> \<bar>x\<bar> / 2 ^ 53 + 2 powi (- 1075)"
    by (rule to_double_error [OF v])
  also have "\<dots> \<le> \<bar>x\<bar> / 2 ^ 53 + 1 / 2 ^ 53"
    using tiny_unit by simp
  also have "\<dots> < 1 / 800"
    using assms by simp
  finally show ?thesis using v that by blast
qed

text \<open>
  The text of a number reads back as the number, unless no decimal of up to seventeen
  digits does, in which case the number itself is sent.
\<close>

lemma shortest_among_cases:
  "shortest_among ks x = x \<or> to_double (shortest_among ks x) = Number x"
  by (induction ks) (auto simp: find_Some_iff split: option.splits)

lemma shortest_decimal_cases:
  "shortest_decimal x = x \<or> to_double (shortest_decimal x) = Number x"
  unfolding shortest_decimal_def by (rule shortest_among_cases)

text \<open>
  Hence the text that the store receives for an amount of less than ten to the
  thirteenth is within half a cent of the amount.
\<close>

lemma shortest_decimal_near:
  assumes "to_double a = Number v" and "\<bar>a\<bar> < 10 ^ 13"
  shows "\<bar>shortest_decimal v - a\<bar> < 1 / 200"
proof -
  obtain w where w: "to_double a = Number w" and wa: "\<bar>w - a\<bar> < 1 / 800"
    using to_double_near [OF assms(2)] by blast
  with assms(1) have va: "\<bar>v - a\<bar> < 1 / 800" by simp
  define p where "p = shortest_decimal v"
  consider "p = v" | "to_double p = Number v"
    using shortest_decimal_cases [of v] by (auto simp: p_def)
  then have "\<bar>p - a\<bar> < 1 / 200"
  proof cases
    case 1
    with va show ?thesis by simp
  next
    case 2
    have pe: "\<bar>v - p\<bar> \<le> \<bar>p\<bar> / 2 ^ 53 + 1 / 2 ^ 53"
      using to_double_error [OF 2] tiny_unit by linarith
    have vb: "\<bar>v\<bar> < 10 ^ 13 + 1" using va assms(2) by linarith
    have "\<bar>p\<bar> \<le> \<bar>v\<bar> + \<bar>v - p\<bar>" by linarith
    with pe have "\<bar>p\<bar> - \<bar>p\<bar> / 2 ^ 53 \<le> \<bar>v\<bar> + 1 / 2 ^ 53" by linarith
    with vb have pb: "\<bar>p\<bar> < 2 * 10 ^ 13" by simp
    from pe pb have "\<bar>v - p\<bar> < 1 / 400" by simp
    with va show ?thesis by linarith
  qed
  then show ?thesis by (simp add: p_def)
qed

subsection \<open>Amounts of two decimal places\<close>

lemma two_places_int: "two_places x \<Longrightarrow> \<exists>k::int. x = of_int k / 100"
  unfolding two_places_def by (metis nonzero_mult_div_cancel_right zero_neq_numeral)

lemma two_places_of_int: "two_places (of_int k / 100)"
  by (simp add: two_places_def)



lemma two_places_mult_nat: "two_places x \<Longrightarrow> two_places (of_nat n * x)"
proof -
  assume "two_places x"
  then obtain k :: int where "x = of_int k / 100"
    using two_places_int by blast
  then have "of_nat n * x = of_int (int n * k) / 100" by simp
  then show ?thesis by (simp only: two_places_of_int)
qed

text \<open>Two different amounts of two places are at least a cent apart.\<close>

lemma two_places_gap:
  assumes "two_places x" and "two_places y" and "x < y"
  shows "x + 1 / 100 \<le> y"
proof -
  obtain k l :: int where x: "x = of_int k / 100" and y: "y = of_int l / 100"
    using assms(1,2) two_places_int by blast
  with assms(3) have "k < l" by simp
  then have "k + 1 \<le> l" by simp
  then have "(of_int (k + 1) :: rat) \<le> of_int l" by (simp only: of_int_le_iff)
  then show ?thesis by (simp add: x y field_simps)
qed

text \<open>Rounding to the scale gives back the amount of two places that is within half a cent.\<close>

lemma round_scale_near:
  assumes "two_places y" and "\<bar>z - y\<bar> < 1 / 200"
  shows "round_scale z = y"
proof -
  obtain k :: int where y: "y = of_int k / 100"
    using assms(1) two_places_int by blast
  have near: "\<bar>z * 100 - of_int k\<bar> < 1 / 2"
    using assms(2) by (simp add: y abs_if split: if_splits)
  consider "0 < k" | "k = 0" | "k < 0" by linarith
  then show ?thesis
  proof cases
    case 1
    then have "(1::rat) \<le> of_int k" by simp
    with near have zpos: "0 < z" by (simp add: abs_if split: if_splits)
    have "\<lfloor>z * 100 + 1 / 2\<rfloor> = k"
      using near by (intro floor_unique) (simp_all add: abs_if split: if_splits)
    with zpos show ?thesis by (simp add: round_scale_def y)
  next
    case 2
    with near have small: "\<bar>z\<bar> * 100 < 1 / 2" by (simp add: abs_if split: if_splits)
    have "\<lfloor>\<bar>z\<bar> * 100 + 1 / 2\<rfloor> = 0"
      using small by (intro floor_unique) simp_all
    with 2 show ?thesis by (simp add: round_scale_def y)
  next
    case 3
    then have "(of_int k :: rat) \<le> - 1" by simp
    with near have zneg: "z < 0" by (simp add: abs_if split: if_splits)
    have "\<lfloor>- z * 100 + 1 / 2\<rfloor> = - k"
      using near by (intro floor_unique) (simp_all add: abs_if split: if_splits)
    with zneg show ?thesis by (simp add: round_scale_def y)
  qed
qed

lemma round_scale_two_places: "two_places y \<Longrightarrow> round_scale y = y"
  by (rule round_scale_near) simp_all

section \<open>Evaluating the model\<close>

lemma floor_divide_numeral_rat:
  "\<lfloor>(numeral a :: rat) / numeral b\<rfloor> = numeral a div numeral b"
  using floor_divide_of_int_eq [of "numeral a" "numeral b", where ?'a = rat] by simp

lemma ceiling_divide_numeral_rat:
  "\<lceil>(numeral a :: rat) / numeral b\<rceil> = - ((- numeral a) div numeral b)"
  using floor_divide_of_int_eq [of "- numeral a" "numeral b", where ?'a = rat]
  by (simp add: ceiling_def)

lemmas double_eval = to_double_def binary_exponent_def round_half_even_def Let_def
  power_int_def compute_bitlen power_one_over inverse_eq_divide floor_divide_numeral_rat
  ceiling_divide_numeral_rat

lemmas decimal_eval = number_text_def shortest_decimal_def decimal_candidates_def
  decimal_exponent_def compute_floorlog round_scale_def

lemmas model_defs = registerUser_def addFunds_def payBill_def sendMoney_def empty_db_def
  select_balance_def update_balance_def insert_transaction_def findRecipient_def

lemma js_lt_NaN [simp]: "js_lt x NaN = False"
  by (cases x) simp_all

lemma js_le_NaN [simp]: "js_le x NaN = False"
  by (cases x) simp_all

lemma asha_wallet_eq:
  "asha_wallet =
     \<lparr>users = [\<lparr>u_user_id = 1, u_first_name = ''Asha'', u_last_name = ''Rao'',
                 u_email_id = ''asha@example.com'', u_mobile_number = ''9000000001''\<rparr>],
      account_balances = [\<lparr>b_user_id = 1, b_amount = Numeric 100, b_last_updated_at = 2\<rparr>],
      transactions =
        [\<lparr>t_transaction_id = 1, t_user_id = 1, t_type = CREDIT, t_amount = Numeric 100,
          t_description = ''Wallet Deposit (External)'', t_status = ''COMPLETED'',
          t_counterparty_id = None, t_created_at = 2, t_last_updated_at = 2\<rparr>],
      users_seq = 1, transactions_seq = 1,
      balance_digits = 8, ledger_digits = 8\<rparr>"
  by (simp add: asha_wallet_def model_defs double_eval decimal_eval)

lemma two_wallets_eq:
  "two_wallets =
     \<lparr>users = [\<lparr>u_user_id = 1, u_first_name = ''Asha'', u_last_name = ''Rao'',
                 u_email_id = ''asha@example.com'', u_mobile_number = ''9000000001''\<rparr>,
               \<lparr>u_user_id = 2, u_first_name = ''Bilal'', u_last_name = ''Khan'',
                 u_email_id = ''bilal@example.com'', u_mobile_number = ''9000000002''\<rparr>],
      account_balances = [\<lparr>b_user_id = 1, b_amount = Numeric 200, b_last_updated_at = 3\<rparr>,
                          \<lparr>b_user_id = 2, b_amount = Numeric 10, b_last_updated_at = 4\<rparr>],
      transactions =
        [\<lparr>t_transaction_id = 1, t_user_id = 1, t_type = CREDIT, t_amount = Numeric 200,
          t_description = ''Wallet Deposit (External)'', t_status = ''COMPLETED'',
          t_counterparty_id = None, t_created_at = 3, t_last_updated_at = 3\<rparr>,
         \<lparr>t_transaction_id = 2, t_user_id = 2, t_type = CREDIT, t_amount = Numeric 10,
          t_description = ''Wallet Deposit (External)'', t_status = ''COMPLETED'',
          t_counterparty_id = None, t_created_at = 4, t_last_updated_at = 4\<rparr>],
      users_seq = 2, transactions_seq = 2,
      balance_digits = 8, ledger_digits = 8\<rparr>"
  by (simp add: two_wallets_def model_defs double_eval decimal_eval)

lemma dime_wallet_eq:
  "dime_wallet =
     \<lparr>users = [\<lparr>u_user_id = 1, u_first_name = ''Asha'', u_last_name = ''Rao'',
                 u_email_id = ''asha@example.com'', u_mobile_number = ''9000000001''\<rparr>,
               \<lparr>u_user_id = 2, u_first_name = ''Bilal'', u_last_name = ''Khan'',
                 u_email_id = ''bilal@example.com'', u_mobile_number = ''9000000002''\<rparr>],
      account_balances = [\<lparr>b_user_id = 1, b_amount = Numeric (1 / 10), b_last_updated_at = 3\<rparr>,
                          \<lparr>b_user_id = 2, b_amount = Numeric 0, b_last_updated_at = 2\<rparr>],
      transactions =
        [\<lparr>t_transaction_id = 1, t_user_id = 1, t_type = CREDIT, t_amount = Numeric (1 / 10),
          t_description = ''Wallet Deposit (External)'', t_status = ''COMPLETED'',
          t_counterparty_id = None, t_created_at = 3, t_last_updated_at = 3\<rparr>],
      users_seq = 2, transactions_seq = 1,
      balance_digits = 8, ledger_digits = 8\<rparr>"
  by (simp add: dime_wallet_def model_defs double_eval decimal_eval)

lemma malformed_deposit_eq:
  "malformed_deposit =
     \<lparr>users = [\<lparr>u_user_id = 1, u_first_name = ''Asha'', u_last_name = ''Rao'',
                 u_email_id = ''asha@example.com'', u_mobile_number = ''9000000001''\<rparr>,
               \<lparr>u_user_id = 2, u_first_name = ''Bilal'', u_last_name = ''Khan'',
                 u_email_id = ''bilal@example.com'', u_mobile_number = ''9000000002''\<rparr>],
      account_balances = [\<lparr>b_user_id = 1, b_amount = NumericNaN, b_last_updated_at = 3\<rparr>,
                          \<lparr>b_user_id = 2, b_amount = Numeric 0, b_last_updated_at = 2\<rparr>],
      transactions =
        [\<lparr>t_transaction_id = 1, t_user_id = 1, t_type = CREDIT, t_amount = NumericNaN,
          t_description = ''Wallet Deposit (External)'', t_status = ''COMPLETED'',
          t_counterparty_id = None, t_created_at = 3, t_last_updated_at = 3\<rparr>],
      users_seq = 2, transactions_seq = 1,
      balance_digits = 8, ledger_digits = 8\<rparr>"
  by (simp add: malformed_deposit_def model_defs)

section \<open>Facts about the queries\<close>

lemma update_rows_Some:
  assumes "\<And>r. r \<in> set rows \<Longrightarrow> b_user_id r = v \<Longrightarrow>
             store_amount digits (f (b_amount r)) = Some (g (b_amount r))"
  shows "update_rows digits f now v rows =
           Some (map (\<lambda>r. if b_user_id r = v
                            then r\<lparr>b_amount := g (b_amount r), b_last_updated_at := now\<rparr>
                            else r) rows)"
  using assms by (induction rows) simp_all

lemma select_updated_rows:
  "map b_amount (filter (\<lambda>r. b_user_id r = u)
     (map (\<lambda>r. if b_user_id r = v
                then r\<lparr>b_amount := g (b_amount r), b_last_updated_at := now\<rparr>
                else r) rows))
   = (if u = v then map g (map b_amount (filter (\<lambda>r. b_user_id r = u) rows))
      else map b_amount (filter (\<lambda>r. b_user_id r = u) rows))"
  by (induction rows) auto

text \<open>
  An update whose new amounts all fit the column succeeds and changes the amounts of
  the rows of its user and nothing else.
\<close>

lemma update_balance_result:
  assumes "\<And>x. x \<in> set (select_balance v d) \<Longrightarrow>
             store_amount (balance_digits d) (f x) = Some (g x)"
  obtains d' where "update_balance f now v d = Some d'"
    and "\<And>u. select_balance u d' =
           (if u = v then map g (select_balance u d) else select_balance u d)"
    and "users d' = users d" and "transactions d' = transactions d"
    and "transactions_seq d' = transactions_seq d"
    and "balance_digits d' = balance_digits d" and "ledger_digits d' = ledger_digits d"
proof -
  let ?rows = "map (\<lambda>r. if b_user_id r = v
                          then r\<lparr>b_amount := g (b_amount r), b_last_updated_at := now\<rparr>
                          else r) (account_balances d)"
  have "update_rows (balance_digits d) f now v (account_balances d) = Some ?rows"
    using assms by (intro update_rows_Some) (simp add: select_balance_def)
  then have "update_balance f now v d = Some (d\<lparr>account_balances := ?rows\<rparr>)"
    by (simp add: update_balance_def)
  moreover have "select_balance u (d\<lparr>account_balances := ?rows\<rparr>) =
      (if u = v then map g (select_balance u d) else select_balance u d)" for u
    by (simp add: select_balance_def select_updated_rows)
  ultimately show ?thesis using that by simp
qed

text \<open>An insertion whose amount fits the column succeeds and appends one record.\<close>

lemma insert_transaction_result:
  assumes "store_amount (ledger_digits d) amt = Some stored"
  obtains d' where "insert_transaction uid ty amt descr cp st now d = Some d'"
    and "\<And>u. select_balance u d' = select_balance u d"
    and "users d' = users d"
    and "transactions d' = transactions d @
           [\<lparr>t_transaction_id = Suc (transactions_seq d), t_user_id = uid, t_type = ty,
             t_amount = stored, t_description = descr, t_status = st,
             t_counterparty_id = cp, t_created_at = now, t_last_updated_at = now\<rparr>]"
    and "transactions_seq d' = Suc (transactions_seq d)"
    and "balance_digits d' = balance_digits d" and "ledger_digits d' = ledger_digits d"
  using assms that by (simp add: insert_transaction_def select_balance_def)

section \<open>Amounts of two places below ten to the thirteenth\<close>

text \<open>
  Such an amount is read as a positive double within an eighth of a cent, and the text
  that the store receives for it is within half a cent.
\<close>

lemma amount_read:
  assumes "two_places a" and "0 < a" and "a < 10 ^ 13"
  obtains v where "parseFloat (Decimal a) = Number v" and "0 < v" and "\<bar>v - a\<bar> < 1 / 800"
    and "numeric_param (Number v) = Some (Numeric (shortest_decimal v))"
    and "\<bar>shortest_decimal v - a\<bar> < 1 / 200"
proof -
  have abs_a: "\<bar>a\<bar> < 10 ^ 13" using assms(2,3) by simp
  obtain v where v: "to_double a = Number v" and va: "\<bar>v - a\<bar> < 1 / 800"
    using to_double_near [OF abs_a] by blast
  have "two_places 0" by (simp add: two_places_def)
  then have "0 + 1 / 100 \<le> a" using assms(1,2) by (intro two_places_gap)
  with va have vpos: "0 < v" by linarith
  then have "numeric_param (Number v) = Some (Numeric (shortest_decimal v))"
    by (simp add: number_text_def)
  moreover have "\<bar>shortest_decimal v - a\<bar> < 1 / 200"
    using shortest_decimal_near [OF v abs_a] .
  ultimately show ?thesis using v va vpos that by simp
qed

lemma balance_read:
  assumes "\<bar>b\<bar> < 10 ^ 13"
  obtains w where "parseFloat_numeric (Numeric b) = Number w" and "\<bar>w - b\<bar> < 1 / 800"
  using to_double_near [OF assms] by auto

text \<open>The funds check on such amounts decides as the exact comparison does.\<close>

lemma funds_check_short:
  assumes "two_places a" and "0 < a" and "a < 10 ^ 13"
    and "two_places b" and "\<bar>b\<bar> < 10 ^ 13" and "b < a"
  shows "js_lt (parseFloat_numeric (Numeric b)) (parseFloat (Decimal a))"
proof -
  obtain v where v: "parseFloat (Decimal a) = Number v" and va: "\<bar>v - a\<bar> < 1 / 800"
    using amount_read [OF assms(1-3)] by metis
  obtain w where w: "parseFloat_numeric (Numeric b) = Number w" and wb: "\<bar>w - b\<bar> < 1 / 800"
    using balance_read [OF assms(5)] by metis
  have "b + 1 / 100 \<le> a" using assms(1,4,6) by (intro two_places_gap)
  with va wb have "w < v" by linarith
  then show ?thesis using v w by simp
qed



section \<open>Bill payment\<close>

text \<open>
  A bill payment that passes the funds check appends a DEBIT record and answers with
  the balance it read: no statement of \<open>payBill\<close> writes \<open>account_balances\<close>.
\<close>

lemma payBill_balances:
  "account_balances (snd (payBill user_id merchant_id amount description now d)) =
     account_balances d"
  by (auto simp add: payBill_def Let_def insert_transaction_def
        split: list.split option.split)

text \<open>
  C1. A bill payment with a valid user, a merchant and an amount that the balance
  covers is to decrement the balance by the amount and return the new balance. On a
  balance of 100 a payment of 30 is accepted, returns 100 and leaves the balance at 100.
\<close>

theorem payBill_leaves_balance_undebited:
  "select_balance 1 asha_wallet = [Numeric 100] \<and>
   fst (payBill (IdNumber 1) ''power-co'' (Decimal 30) ''Electricity'' 3 asha_wallet) =
     Response 200 (NewBalance (Numeric 100)) \<and>
   select_balance 1
     (snd (payBill (IdNumber 1) ''power-co'' (Decimal 30) ''Electricity'' 3 asha_wallet)) =
     [Numeric 100]"
  by (simp add: asha_wallet_eq model_defs double_eval decimal_eval)

text \<open>
  C7, as stated: a bill payment for a user whose balance is strictly less than the
  amount is to fail for insufficient funds. The funds check compares the two as
  doubles: the balance 0.10 and the amount 0.10000000000000001 are the same double, so
  the payment of the larger amount is accepted and its DEBIT record committed.
\<close>

theorem payBill_rounded_funds_check:
  "select_balance 1 dime_wallet = [Numeric (1 / 10)] \<and>
   (1 / 10 :: rat) < 10000000000000001 / 100000000000000000 \<and>
   fst (payBill (IdNumber 1) ''power-co'' (Decimal (10000000000000001 / 100000000000000000))
          ''Electricity'' 4 dime_wallet) =
     Response 200 (NewBalance (Numeric (1 / 10))) \<and>
   length (transactions
     (snd (payBill (IdNumber 1) ''power-co'' (Decimal (10000000000000001 / 100000000000000000))
             ''Electricity'' 4 dime_wallet))) =
     length (transactions dime_wallet) + 1"
  by (simp add: dime_wallet_eq model_defs double_eval decimal_eval)

text \<open>
  C7, amended: a bill payment that passes the request validation, of an amount of at
  most two decimal places below ten to the thirteenth, for a user whose balance has two
  places, is below ten to the thirteenth in size and is strictly less than the amount,
  fails with status 402 and the insufficient-funds error; the store, and with it the
  balance and the ledger, is as it was.
\<close>

theorem payBill_insufficient_funds:
  assumes "\<not> falsy_id user_id" and "merchant_id \<noteq> []"
    and "two_places a" and "0 < a" and "a < 10 ^ 13"
    and "select_balance (id_key user_id) d = Numeric balance # others"
    and "two_places balance" and "\<bar>balance\<bar> < 10 ^ 13" and "balance < a"
  shows "payBill user_id merchant_id (Decimal a) description now d =
           (Response 402 (Error ''Insufficient funds for this payment.''), d)"
proof -
  obtain v where v: "parseFloat (Decimal a) = Number v" and vpos: "0 < v"
    using amount_read [OF assms(3-5)] by metis
  have short: "js_lt (parseFloat_numeric (Numeric balance)) (parseFloat (Decimal a))"
    using assms(3-5,7-9) by (rule funds_check_short)
  have valid: "\<not> js_le (parseFloat (Decimal a)) (Number 0)"
    using vpos v by simp
  show ?thesis
    using assms(1,2,6) valid short by (simp add: payBill_def Let_def)
qed

theorem payBill_insufficient_funds_witness:
  "select_balance 1 asha_wallet = [Numeric 100] \<and>
   payBill (IdNumber 1) ''power-co'' (Decimal 250) ''Electricity'' 3 asha_wallet =
     (Response 402 (Error ''Insufficient funds for this payment.''), asha_wallet)"
proof -
  have bal: "select_balance 1 asha_wallet = [Numeric 100]"
    by (simp add: asha_wallet_eq select_balance_def)
  show ?thesis
    using bal payBill_insufficient_funds
      [where user_id = "IdNumber 1" and merchant_id = "''power-co''" and a = 250
         and d = asha_wallet and balance = 100 and others = "[]"
         and description = "''Electricity''" and now = 3]
    by (simp add: two_places_def)
qed

text \<open>
  C2. Reconciliation: after every sequence of committed deposits, bill payments and
  transfers a user's balance is to equal the user's credits minus the user's debits.
  After a deposit of 100 the store is reconciled; after a bill payment of 30 the
  balance is still 100 and the ledger nets to 70.
\<close>

theorem reconciliation_broken_by_payBill:
  "reconciled asha_wallet \<and>
   select_balance 1 asha_after_bill = [Numeric 100] \<and>
   ledger_net 1 asha_after_bill = Numeric 70 \<and>
   \<not> reconciled asha_after_bill"
  by (simp add: asha_after_bill_def asha_wallet_eq reconciled_def ledger_net_def
        numeric_sum_def model_defs double_eval decimal_eval)

section \<open>Validation of the amount\<close>

text \<open>An amount that reads as a number and is not positive is rejected with status 400 at once.\<close>

lemma nonpositive_amount_rejected:
  assumes "parseFloat amount = Number v" and "v \<le> 0"
  shows "addFunds user_id amount now d =
           (Response 400 (Error ''Valid user ID and positive amount required.''), d) \<and>
         sendMoney sender_id recipient_identifier amount now d =
           (Response 400 (Error ''Sender ID, recipient, and positive amount required.''), d)"
  using assms by (simp add: addFunds_def sendMoney_def)

text \<open>
  C4. A deposit or transfer whose amount is not a valid number is to fail as an invalid
  amount before the transaction is opened. \<open>NaN <= 0\<close> is false, so the guard of both
  handlers lets \<open>NaN\<close> through: the request runs the transaction, the funds check of
  the transfer passes as well, \<open>NaN\<close> is written to the balance and the answer is
  status 200.
\<close>

theorem malformed_amount_not_rejected:
  "\<not> js_le (parseFloat Malformed) (Number 0) \<and>
   fst (addFunds (IdNumber 1) Malformed 3 asha_wallet) = Response 200 (NewBalance NumericNaN) \<and>
   select_balance 1 (snd (addFunds (IdNumber 1) Malformed 3 asha_wallet)) = [NumericNaN] \<and>
   fst (sendMoney (IdNumber 1) ''bilal@example.com'' Malformed 5 two_wallets) =
     Response 200 (NewBalance NumericNaN) \<and>
   select_balance 2 (snd (sendMoney (IdNumber 1) ''bilal@example.com'' Malformed 5 two_wallets)) =
     [NumericNaN]"
  by (simp add: asha_wallet_eq two_wallets_eq model_defs Let_def)

section \<open>The balance after a malformed deposit\<close>

text \<open>
  C3. The balance of every user is to be at least 0 in every committed state. A user
  registered with balance 0 who deposits a malformed amount has the balance \<open>NaN\<close>,
  which is not at least 0; every funds check against it passes, so the user, who never
  deposited anything, sends 1000 to another user, whose balance becomes 1000.
  The defect is the guard of C4.
\<close>

theorem malformed_deposit_breaks_balance:
  "select_balance 1 malformed_deposit = [NumericNaN] \<and>
   \<not> js_le (Number 0) (parseFloat_numeric NumericNaN) \<and>
   fst (sendMoney (IdNumber 1) ''bilal@example.com'' (Decimal 1000) 4 malformed_deposit) =
     Response 200 (NewBalance NumericNaN) \<and>
   select_balance 2
     (snd (sendMoney (IdNumber 1) ''bilal@example.com'' (Decimal 1000) 4 malformed_deposit)) =
     [Numeric 1000]"
  by (simp add: malformed_deposit_eq model_defs double_eval decimal_eval)

text \<open>
  The funds check of a transfer compares the balance and the amount as doubles, and the
  store then subtracts the decimal text of the amount. Where doubles are more than a
  cent apart, on columns that hold such amounts, a balance is overdrawn:
  70368744177664.01 and 70368744177664.02 are the same double, the transfer of the
  larger from a balance of the smaller passes the check and leaves the balance at
  -0.01.
\<close>

lemma rounded_funds_check_overdraws:
  "select_balance 1 wide_wallet = [Numeric (7036874417766401 / 100)] \<and>
   fst (sendMoney (IdNumber 1) ''bilal@example.com'' (Decimal (7036874417766402 / 100)) 5
          wide_wallet) =
     Response 200 (NewBalance (Numeric (- (1 / 100)))) \<and>
   select_balance 1
     (snd (sendMoney (IdNumber 1) ''bilal@example.com'' (Decimal (7036874417766402 / 100)) 5
             wide_wallet)) =
     [Numeric (- (1 / 100))]"
proof -
  have store: "account_balances wide_wallet =
      [\<lparr>b_user_id = 1, b_amount = Numeric (7036874417766401 / 100), b_last_updated_at = 4\<rparr>,
       \<lparr>b_user_id = 2, b_amount = Numeric 0, b_last_updated_at = 2\<rparr>]"
    and people: "users wide_wallet =
      [\<lparr>u_user_id = 1, u_first_name = ''Asha'', u_last_name = ''Rao'',
         u_email_id = ''asha@example.com'', u_mobile_number = ''9000000001''\<rparr>,
       \<lparr>u_user_id = 2, u_first_name = ''Bilal'', u_last_name = ''Khan'',
         u_email_id = ''bilal@example.com'', u_mobile_number = ''9000000002''\<rparr>]"
    and widths: "balance_digits wide_wallet = 14" "ledger_digits wide_wallet = 14"
    by (simp_all add: wide_wallet_def model_defs double_eval decimal_eval)
  show ?thesis
    by (simp add: store people widths model_defs double_eval decimal_eval)
qed

section \<open>A user without a balance row\<close>

text \<open>
  A deposit for a user without a balance row updates no row, inserts the CREDIT record
  and commits; only then it reads the first returned row, which does not exist, and
  answers with status 500. The ledger record stays committed.
\<close>

lemma addFunds_without_balance_row:
  assumes "select_balance (id_key user_id) d = []" and "\<not> falsy_id user_id"
    and "\<not> js_le (parseFloat amount) (Number 0)"
    and "numeric_param (parseFloat amount) = Some dep"
    and "store_amount (ledger_digits d) dep = Some stored"
  shows "fst (addFunds user_id amount now d) =
           Response 500 (Error ''Internal server error: Deposit failed.'') \<and>
         transactions (snd (addFunds user_id amount now d)) =
           transactions d @
             [\<lparr>t_transaction_id = Suc (transactions_seq d), t_user_id = id_key user_id,
               t_type = CREDIT, t_amount = stored,
               t_description = ''Wallet Deposit (External)'', t_status = ''COMPLETED'',
               t_counterparty_id = None, t_created_at = now, t_last_updated_at = now\<rparr>]"
proof -
  obtain tx1 where tx1: "update_balance (\<lambda>x. numeric_add x dep) now (id_key user_id) d = Some tx1"
    and sel1: "\<And>u. select_balance u tx1 =
           (if u = id_key user_id then map id (select_balance u d) else select_balance u d)"
    and tr1: "transactions tx1 = transactions d" "transactions_seq tx1 = transactions_seq d"
      "ledger_digits tx1 = ledger_digits d"
    using update_balance_result
      [of "id_key user_id" d "\<lambda>x. numeric_add x dep" id now] assms(1)
    by auto
  obtain tx2 where tx2: "insert_transaction (id_key user_id) CREDIT dep
        ''Wallet Deposit (External)'' None ''COMPLETED'' now tx1 = Some tx2"
    and tr2: "transactions tx2 = transactions tx1 @
           [\<lparr>t_transaction_id = Suc (transactions_seq tx1), t_user_id = id_key user_id,
             t_type = CREDIT, t_amount = stored,
             t_description = ''Wallet Deposit (External)'', t_status = ''COMPLETED'',
             t_counterparty_id = None, t_created_at = now, t_last_updated_at = now\<rparr>]"
    using insert_transaction_result [of tx1 dep stored] assms(5) tr1(3) by metis
  have "addFunds user_id amount now d =
          (Response 500 (Error ''Internal server error: Deposit failed.''), tx2)"
    using assms(1-4) tx1 tx2 sel1 by (simp add: addFunds_def Let_def)
  then show ?thesis using tr1 tr2 by simp
qed




section \<open>Peer-to-peer transfer\<close>

text \<open>
  C8. A transfer whose recipient identifier resolves to the sender's own user
  identifier is to fail as a self-transfer with no change. The guard compares the
  sender identifier of the request with the recipient's key by \<^verbatim>\<open>===\<close> and no
  \<^verbatim>\<open>typeof\<close> check precedes it, as one does in \<open>getUserTransactions\<close>: a sender
  identifier sent as the text \<open>1\<close> is not \<^verbatim>\<open>===\<close> to the key 1, the store reads it
  as the key 1, and the transfer of user 1 to user 1 is committed with a DEBIT and a
  CREDIT record and status 200.
\<close>

theorem sendMoney_self_transfer_text_id:
  "map_option u_user_id (findRecipient ''9000000001'' two_wallets) = Some 1 \<and>
   id_key (IdNumeral 1) = 1 \<and>
   fst (sendMoney (IdNumeral 1) ''9000000001'' (Decimal 75) 5 two_wallets) =
     Response 200 (NewBalance (Numeric 200)) \<and>
   map (\<lambda>t. (t_user_id t, t_type t, t_amount t, t_counterparty_id t))
     (drop (length (transactions two_wallets))
        (transactions (snd (sendMoney (IdNumeral 1) ''9000000001'' (Decimal 75) 5 two_wallets)))) =
     [(1, DEBIT, Numeric 75, Some 1), (1, CREDIT, Numeric 75, Some 1)]"
  by (simp add: two_wallets_eq model_defs double_eval decimal_eval)

text \<open>With the sender identifier sent as a number the guard holds.\<close>

lemma sendMoney_self_transfer_number_id:
  assumes "sender_id \<noteq> 0" and "recipient_identifier \<noteq> []"
    and "\<not> js_le (parseFloat amount) (Number 0)"
    and "findRecipient recipient_identifier d = Some recipient"
    and "u_user_id recipient = sender_id"
  shows "sendMoney (IdNumber sender_id) recipient_identifier amount now d =
           (Response 400 (Error ''Cannot send money to yourself.''), d)"
  using assms by (simp add: sendMoney_def)




section \<open>Exactness of amounts\<close>








section \<open>Listing the transactions of a user\<close>

lemma same_instant_deposits_ledger:
  "transactions same_instant_deposits =
     [\<lparr>t_transaction_id = 1, t_user_id = 1, t_type = CREDIT, t_amount = Numeric 100,
       t_description = ''Wallet Deposit (External)'', t_status = ''COMPLETED'',
       t_counterparty_id = None, t_created_at = 2, t_last_updated_at = 2\<rparr>,
      \<lparr>t_transaction_id = 2, t_user_id = 1, t_type = CREDIT, t_amount = Numeric 10,
       t_description = ''Wallet Deposit (External)'', t_status = ''COMPLETED'',
       t_counterparty_id = None, t_created_at = 5, t_last_updated_at = 5\<rparr>,
      \<lparr>t_transaction_id = 3, t_user_id = 1, t_type = CREDIT, t_amount = Numeric 20,
       t_description = ''Wallet Deposit (External)'', t_status = ''COMPLETED'',
       t_counterparty_id = None, t_created_at = 5, t_last_updated_at = 5\<rparr>]"
  by (simp add: same_instant_deposits_def asha_wallet_eq model_defs double_eval decimal_eval)

text \<open>Sorting by \<open>created_at\<close> and reversing is one result the query may give.\<close>

lemma order_by_created_at_desc_exists:
  "order_by_created_at_desc rows (rev (sort_key t_created_at rows))"
proof -
  have "sorted (map t_created_at (sort_key t_created_at rows))"
    by (rule sorted_sort_key)
  then have "sorted_wrt (\<lambda>a b. t_created_at a \<le> t_created_at b)
               (sort_key t_created_at rows)"
    by (simp add: sorted_map)
  then have "sorted_wrt (\<lambda>a b. t_created_at b \<le> t_created_at a)
               (rev (sort_key t_created_at rows))"
    by (simp add: sorted_wrt_rev)
  then show ?thesis
    by (simp add: order_by_created_at_desc_def)
qed

text \<open>
  C9, as stated: of two records with equal \<open>created_at\<close> the one with the higher
  \<open>transaction_id\<close> is to come first. The query orders by \<open>created_at\<close> alone: for two
  deposits served at the same instant, the listing with record 2 before record 3 is a
  response of the handler.
\<close>

theorem listing_tie_lower_id_first:
  "getUserTransactions (IdNumber 1) same_instant_deposits
     (Response 200 (Transactions
       [\<lparr>t_transaction_id = 2, t_user_id = 1, t_type = CREDIT, t_amount = Numeric 10,
         t_description = ''Wallet Deposit (External)'', t_status = ''COMPLETED'',
         t_counterparty_id = None, t_created_at = 5, t_last_updated_at = 5\<rparr>,
        \<lparr>t_transaction_id = 3, t_user_id = 1, t_type = CREDIT, t_amount = Numeric 20,
         t_description = ''Wallet Deposit (External)'', t_status = ''COMPLETED'',
         t_counterparty_id = None, t_created_at = 5, t_last_updated_at = 5\<rparr>,
        \<lparr>t_transaction_id = 1, t_user_id = 1, t_type = CREDIT, t_amount = Numeric 100,
         t_description = ''Wallet Deposit (External)'', t_status = ''COMPLETED'',
         t_counterparty_id = None, t_created_at = 2, t_last_updated_at = 2\<rparr>]))"
  by (simp add: getUserTransactions_def order_by_created_at_desc_def
        same_instant_deposits_ledger)

text \<open>
  C9, amended: for every user identifier that the handler accepts, a listing is
  returned, and every listing the handler may return has status 200 and holds exactly
  that user's ledger records, each once, in non-increasing order of \<open>created_at\<close>
  (most recent first); the order among records with equal \<open>created_at\<close> is not fixed.
\<close>

theorem getUserTransactions_newest_first:
  assumes "user_id \<noteq> 0"
  shows "(\<exists>res. getUserTransactions (IdNumber user_id) d res) \<and>
         (\<forall>res. getUserTransactions (IdNumber user_id) d res \<longrightarrow>
            (\<exists>result. res = Response 200 (Transactions result) \<and>
               mset result = mset (filter (\<lambda>t. t_user_id t = user_id) (transactions d)) \<and>
               sorted_wrt (\<lambda>a b. t_created_at b \<le> t_created_at a) result))"
proof (intro conjI allI impI)
  let ?rows = "filter (\<lambda>t. t_user_id t = user_id) (transactions d)"
  have "getUserTransactions (IdNumber user_id) d
          (Response 200 (Transactions (rev (sort_key t_created_at ?rows))))"
    using assms by (simp add: getUserTransactions_def order_by_created_at_desc_exists)
  then show "\<exists>res. getUserTransactions (IdNumber user_id) d res" ..
next
  fix res
  assume "getUserTransactions (IdNumber user_id) d res"
  with assms show "\<exists>result. res = Response 200 (Transactions result) \<and>
      mset result = mset (filter (\<lambda>t. t_user_id t = user_id) (transactions d)) \<and>
      sorted_wrt (\<lambda>a b. t_created_at b \<le> t_created_at a) result"
    by (auto simp: getUserTransactions_def order_by_created_at_desc_def
          split: response.splits body.splits)
qed

theorem getUserTransactions_newest_first_witness:
  "(1::nat) \<noteq> 0 \<and> (\<exists>res. getUserTransactions (IdNumber 1) same_instant_deposits res) \<and>
   (\<exists>result.
      Response 200 (Transactions (rev (transactions same_instant_deposits))) =
        Response 200 (Transactions result) \<and>
      mset result =
        mset (filter (\<lambda>t. t_user_id t = 1) (transactions same_instant_deposits)) \<and>
      sorted_wrt (\<lambda>a b. t_created_at b \<le> t_created_at a) result)"
proof -
  have listed: "getUserTransactions (IdNumber 1) same_instant_deposits
                  (Response 200 (Transactions (rev (transactions same_instant_deposits))))"
    by (simp add: getUserTransactions_def order_by_created_at_desc_def
          same_instant_deposits_ledger)
  show ?thesis
    using listed getUserTransactions_newest_first [of 1 same_instant_deposits]
    by blast
qed

end
